theory Spec2Isabelle
  imports Main "HOL-Library.Sublist"
begin

section \<open>The PDF object tag: regions, rebuild, creation, deletion, colours\<close>

text \<open>
  A shallow embedding of \<^verbatim>\<open>web/libs/editor/src/tags/object/pdf.js\<close>: the
  \<^verbatim>\<open>PDFRegion\<close> model with its actions, and the \<^verbatim>\<open>Model\<close> part of
  \<^verbatim>\<open>PDFModel\<close> with \<^verbatim>\<open>needsUpdate\<close>, \<^verbatim>\<open>updateRegions\<close>,
  \<^verbatim>\<open>addRegion\<close>, \<^verbatim>\<open>destroyRegion\<close> and \<^verbatim>\<open>deleteRegion\<close>.
  Mutation of the model, of the annotation store and of the console is explicit state
  passing; a JavaScript exception is the left summand of a sum type.
\<close>

subsection \<open>JavaScript values\<close>

text \<open>
  A position is the frozen object handed over by the highlighter widget: its own
  enumerable properties, with values this code never inspects.
\<close>

type_synonym 'v Position = "string \<rightharpoonup> 'v"

datatype 'v jsval =
    JUndefined
  | JNull
  | JBool bool
  | JStr string
  | JRef string
  | JPos "'v Position"
  | JProp 'v

type_synonym 'v jsobject = "string \<rightharpoonup> 'v jsval"

text \<open>
  A field of type \<^verbatim>\<open>types.maybeNull(types.string)\<close> is \<open>string option\<close>, with
  \<open>None\<close> for \<^verbatim>\<open>null\<close>; assigning \<^verbatim>\<open>undefined\<close> to such a field stores
  \<^verbatim>\<open>null\<close>. \<open>truthy\<close> is the truth value JavaScript gives such a field in a condition.
\<close>

definition truthy :: "string option \<Rightarrow> bool" where
  "truthy s = (case s of None \<Rightarrow> False | Some t \<Rightarrow> t \<noteq> [])"

definition of_maybeNull :: "string option \<Rightarrow> 'v jsval" where
  "of_maybeNull s = (case s of None \<Rightarrow> JNull | Some t \<Rightarrow> JStr t)"

definition of_optional :: "string option \<Rightarrow> 'v jsval" where
  "of_optional s = (case s of None \<Rightarrow> JUndefined | Some t \<Rightarrow> JStr t)"

text \<open>\<^verbatim>\<open>xs[0]\<close>: the first element, \<^verbatim>\<open>undefined\<close> on an empty array.\<close>

definition first :: "'a list \<Rightarrow> 'a option" where
  "first xs = (case xs of [] \<Rightarrow> None | x # _ \<Rightarrow> Some x)"

datatype jserror = TypeError string | ReferenceError string

datatype logEntry = ConsoleError jserror | ConsoleWarn string

subsection \<open>Data model\<close>

text \<open>
  \<^verbatim>\<open>PDFRegion\<close> (lines 28--39). \<open>u_id\<close> is the field \<^verbatim>\<open>_id\<close>, \<open>rtype\<close> the field
  \<^verbatim>\<open>type\<close>, \<open>rtext\<close> the field \<^verbatim>\<open>text\<close>; \<open>object\<close> holds the identifier of the
  referenced \<^verbatim>\<open>PDFModel\<close>.
\<close>

record 'v PDFRegion =
  u_id :: "string option"
  rtype :: string
  object :: string
  position :: "'v Position"
  rtext :: "string option"
  label :: "string option"

text \<open>
  What the mixins composed into \<^verbatim>\<open>PDFRegionModel\<close> (lines 258--264) contribute and
  this file reads: \<^verbatim>\<open>selectedLabels\<close> of a result with the \<^verbatim>\<open>background\<close> of a
  label, \<^verbatim>\<open>value.text\<close> of a result (\<open>result_text\<close>), and of a region its \<^verbatim>\<open>id\<close>
  (\<open>area_id\<close>), \<^verbatim>\<open>labels\<close>, \<^verbatim>\<open>results\<close>, \<^verbatim>\<open>selected\<close> and \<^verbatim>\<open>hidden\<close>.
  The mixins themselves are declared outside this file; only these fields are taken from them.
  The entries of \<^verbatim>\<open>regs\<close> are such regions.
\<close>

record Label =
  background :: string

record Result =
  result_text :: "string option"
  selectedLabels :: "Label list"

record 'v PDFRegionModel = "'v PDFRegion" +
  area_id :: string
  labels :: "string list"
  results :: "Result list"
  selected :: bool
  hidden :: bool

text \<open>
  The plain object \<^verbatim>\<open>newRegion\<close> that \<^verbatim>\<open>addRegion\<close> builds carries a
  \<^verbatim>\<open>content\<close> besides the fields of \<^verbatim>\<open>PDFRegion\<close>; pushing it into
  \<^verbatim>\<open>types.array(PDFRegion)\<close> keeps the declared fields only.
\<close>

record Content =
  content_text :: "string option"
  content_image :: "string option"

record 'v Highlight = "'v PDFRegion" +
  content :: Content

record 'v HighlightData =
  hposition :: "'v Position"
  hcontent :: Content

record Control =
  valueType :: string
  selectedValues :: "string list"

text \<open>
  \<^verbatim>\<open>TagAttrs\<close> (lines 19--25) and \<^verbatim>\<open>Model\<close> (lines 133--139). \<open>val\<close> is the attribute
  \<^verbatim>\<open>value\<close> and \<open>u_value\<close> the field \<^verbatim>\<open>_value\<close>. \<open>savetextresult\<close> is read by
  \<^verbatim>\<open>serialize\<close> from the owning object and declared by none of the models of this
  file, so it is undefined (\<open>None\<close>) on every model the tag creates; the field is there
  for line 50 to be written as it stands.
\<close>

record 'v PDFModel =
  name :: string
  val :: "string option"
  selectionenabled :: bool
  highlightcolor :: "string option"
  showlabels :: "bool option"
  savetextresult :: "string option"
  u_value :: string
  regions :: "'v PDFRegion list"

text \<open>
  The annotation store: \<^verbatim>\<open>regs\<close>, its regions of this object, and the rest of it,
  of which this file knows nothing (\<open>store\<close>).
\<close>

record ('v, 'a) Annotation =
  regs :: "'v PDFRegionModel list"
  store :: 'a

record ('v, 'a) World =
  item :: "'v PDFModel"
  annotation :: "('v, 'a) Annotation"
  console :: "logEntry list"

text \<open>
  The functions this file calls and does not define: \<^verbatim>\<open>getAvailableStates\<close> and
  \<^verbatim>\<open>states\<close> read the label controls of the annotation; \<^verbatim>\<open>createResult\<close>
  returns a result (\<open>'r\<close>) or nothing and changes the store;
  \<^verbatim>\<open>annotation.addRegion\<close> and the assignment \<^verbatim>\<open>result.area = newRegion\<close>
  change the store.
\<close>

record ('v, 'a, 'r) Externals =
  getAvailableStates :: "('v, 'a) Annotation \<Rightarrow> Control list"
  states :: "('v, 'a) Annotation \<Rightarrow> Control list option"
  createResult ::
    "'v jsobject \<Rightarrow> string \<times> string list \<Rightarrow> Control \<Rightarrow> string \<Rightarrow> ('v, 'a) Annotation
      \<Rightarrow> 'r option \<times> ('v, 'a) Annotation"
  annotation_addRegion :: "'v Highlight \<Rightarrow> ('v, 'a) Annotation \<Rightarrow> ('v, 'a) Annotation"
  set_area :: "'r \<Rightarrow> 'v Highlight \<Rightarrow> ('v, 'a) Annotation \<Rightarrow> ('v, 'a) Annotation"

subsection \<open>\<^verbatim>\<open>PDFRegion.serialize\<close> (lines 41--65)\<close>

text \<open>
  The object under the key \<^verbatim>\<open>value\<close> of the result. The literal has the keys
  \<^verbatim>\<open>position\<close> and \<^verbatim>\<open>text\<close>; three conditional assignments follow.
  \<open>obj\<close> is the object that \<^verbatim>\<open>self.object\<close> refers to. \<^verbatim>\<open>isDefined\<close> is
  neither imported (lines 1--17) nor defined in this file: when the left operand of
  \<^verbatim>\<open>&&\<close> in line 50 holds, evaluating the right one raises a ReferenceError, and when
  it does not hold the right operand is not evaluated.
\<close>

record 'v Serialized =
  sval :: "'v jsobject"

definition serialize ::
  "('v, 'y) PDFModel_scheme \<Rightarrow> ('v, 'z) PDFRegion_scheme \<Rightarrow> jserror + 'v Serialized" where
  "serialize obj self =
    (let res0 = [''position'' \<mapsto> JPos (position self), ''text'' \<mapsto> of_maybeNull (rtext self)]
     in if savetextresult obj = Some ''yes''
        then Inl (ReferenceError ''isDefined is not defined'')
        else (let res2 = (if truthy (label self)
                          then res0(''label'' \<mapsto> of_maybeNull (label self)) else res0);
                  res3 = (if truthy (u_id self)
                          then res2(''id'' \<mapsto> of_maybeNull (u_id self)) else res2)
              in Inr \<lparr>sval = res3\<rparr>))"

subsection \<open>Colours (lines 74--124)\<close>

text \<open>
  The document, as far as \<^verbatim>\<open>changeHighlightColor\<close> touches it: for a
  \<^verbatim>\<open>data-highlight-id\<close>, the \<^verbatim>\<open>.Highlight__part\<close> elements of the first element
  carrying it, each with the two style properties that are written. Scrolling is not part
  of this state.
\<close>

record Part =
  style_background :: string
  style_display :: string

type_synonym DOM = "string \<rightharpoonup> Part list"

definition changeHighlightColor ::
  "string \<Rightarrow> ('v, 'z) PDFRegionModel_scheme \<Rightarrow> DOM \<Rightarrow> DOM" where
  "changeHighlightColor color self d =
    (case d (area_id self) of
       None \<Rightarrow> d
     | Some parts \<Rightarrow>
         d(area_id self \<mapsto>
           map (\<lambda>part. part\<lparr>style_background := color,
                             style_display := (if hidden self then ''none'' else ''unset'')\<rparr>)
             parts))"

text \<open>\<^verbatim>\<open>self.results[0].selectedLabels[0].background\<close>, a TypeError when either array is empty.\<close>

definition labelBackground :: "('v, 'z) PDFRegionModel_scheme \<Rightarrow> jserror + string" where
  "labelBackground self =
    (case first (results self) of
       None \<Rightarrow> Inl (TypeError ''results[0] is undefined'')
     | Some r \<Rightarrow>
         (case first (selectedLabels r) of
            None \<Rightarrow> Inl (TypeError ''selectedLabels[0] is undefined'')
          | Some l \<Rightarrow> Inr (background l)))"

definition selectRegion :: "('v, 'z) PDFRegionModel_scheme \<Rightarrow> DOM \<Rightarrow> jserror + DOM" where
  "selectRegion self d =
    (case labelBackground self of
       Inl err \<Rightarrow> Inl err
     | Inr color \<Rightarrow> Inr (changeHighlightColor color self d))"

definition afterUnselectRegion :: "('v, 'z) PDFRegionModel_scheme \<Rightarrow> DOM \<Rightarrow> jserror + DOM" where
  "afterUnselectRegion self d =
    (case labelBackground self of
       Inl err \<Rightarrow> Inl err
     | Inr b \<Rightarrow> Inr (changeHighlightColor (b @ ''26'') self d))"

definition updateText :: "string option \<Rightarrow> ('v, 'z) PDFRegion_scheme \<Rightarrow> ('v, 'z) PDFRegion_scheme" where
  "updateText t self = self\<lparr>rtext := t\<rparr>"

subsection \<open>Rebuild: \<^verbatim>\<open>needsUpdate\<close> and \<^verbatim>\<open>updateRegions\<close> (lines 159--188)\<close>

text \<open>
  The body of the \<^verbatim>\<open>try\<close> block for one entry of \<^verbatim>\<open>regs\<close>, up to the push: the
  new region, and the entry as \<^verbatim>\<open>updateText\<close> leaves it. \<^verbatim>\<open>region.results[0].value\<close>
  raises when there is no first result, before anything is written. The literal has no
  \<^verbatim>\<open>text\<close>, so the field takes its default \<^verbatim>\<open>null\<close>; its \<^verbatim>\<open>selected\<close> is not a
  field of \<^verbatim>\<open>PDFRegion\<close>.
\<close>

definition derive ::
  "string \<Rightarrow> 'v PDFRegionModel \<Rightarrow> jserror + ('v PDFRegion \<times> 'v PDFRegionModel)" where
  "derive self region =
    (let newRegion = \<lparr>u_id = Some (area_id region), rtype = ''pdfregion'', object = self,
                      position = position region, rtext = None,
                      label = first (labels region)\<rparr>
     in if \<not> truthy (rtext region)
        then (case first (results region) of
                None \<Rightarrow> Inl (TypeError ''results[0] is undefined'')
              | Some r \<Rightarrow> Inr (newRegion, updateText (result_text r) region))
        else Inr (newRegion, region))"

text \<open>
  \<^verbatim>\<open>self.regs.forEach\<close>: the entries in order; an exception is written to the console
  and the loop goes on with the next entry.
\<close>

fun forEach_regs ::
  "string \<Rightarrow> 'v PDFRegionModel list \<Rightarrow> 'v PDFRegion list \<times> logEntry list
    \<Rightarrow> 'v PDFRegionModel list \<times> 'v PDFRegion list \<times> logEntry list" where
  "forEach_regs self [] (rs, con) = ([], rs, con)"
| "forEach_regs self (region # rest) (rs, con) =
    (case derive self region of
       Inl err \<Rightarrow>
         (case forEach_regs self rest (rs, con @ [ConsoleError err]) of
            (rest', rs', con') \<Rightarrow> (region # rest', rs', con'))
     | Inr (newRegion, region') \<Rightarrow>
         (case forEach_regs self rest (rs @ [newRegion], con) of
            (rest', rs', con') \<Rightarrow> (region' # rest', rs', con')))"

definition updateRegions :: "('v, 'a) World \<Rightarrow> ('v, 'a) World" where
  "updateRegions w =
    (case forEach_regs (name (item w)) (regs (annotation w)) (regions (item w), console w) of
       (regs', rs', con') \<Rightarrow>
         w\<lparr>item := (item w)\<lparr>regions := rs'\<rparr>,
           annotation := (annotation w)\<lparr>regs := regs'\<rparr>,
           console := con'\<rparr>)"

definition needsUpdate :: "('v, 'a) World \<Rightarrow> ('v, 'a) World" where
  "needsUpdate w = updateRegions (w\<lparr>item := (item w)\<lparr>regions := []\<rparr>\<rparr>)"

subsection \<open>Deletion (lines 167--169 and 240--242)\<close>

text \<open>
  The argument is compared with \<^verbatim>\<open>!==\<close> to the \<^verbatim>\<open>_id\<close> of each region: a string
  or \<^verbatim>\<open>null\<close>.
\<close>

definition destroyRegion :: "string option \<Rightarrow> ('v, 'y) PDFModel_scheme \<Rightarrow> ('v, 'y) PDFModel_scheme" where
  "destroyRegion i self = self\<lparr>regions := filter (\<lambda>x. u_id x \<noteq> i) (regions self)\<rparr>"

definition deleteRegion :: "string option \<Rightarrow> ('v, 'y) PDFModel_scheme \<Rightarrow> ('v, 'y) PDFModel_scheme" where
  "deleteRegion i self = self\<lparr>regions := filter (\<lambda>r. u_id r \<noteq> i) (regions self)\<rparr>"

subsection \<open>\<^verbatim>\<open>addRegion\<close> (lines 190--234)\<close>

text \<open>
  \<open>guid\<close> is what \<^verbatim>\<open>guidGenerator()\<close> returns in this call. The spread
  \<^verbatim>\<open>...highlightData.position\<close> copies the properties of the position over the keys
  written before it, and \<^verbatim>\<open>text\<close> and \<^verbatim>\<open>classification\<close> are written after it.
  The first component of the result is what the call returns, \<open>None\<close> for
  \<^verbatim>\<open>undefined\<close> and for a falsy result.
\<close>

definition areaValue :: "string \<Rightarrow> string \<Rightarrow> 'v HighlightData \<Rightarrow> 'v jsobject" where
  "areaValue guid self highlightData =
    [''id'' \<mapsto> JStr guid, ''object'' \<mapsto> JRef self, ''type'' \<mapsto> JStr ''pdfregion'',
     ''origin'' \<mapsto> JStr ''manual'', ''position'' \<mapsto> JPos (hposition highlightData)]
    ++ (map_option JProp \<circ> hposition highlightData)
    ++ [''text'' \<mapsto> of_optional (content_text (hcontent highlightData)),
        ''classification'' \<mapsto> JBool False]"

definition addRegion ::
  "('v, 'a, 'r) Externals \<Rightarrow> string \<Rightarrow> 'v HighlightData \<Rightarrow> ('v, 'a) World
    \<Rightarrow> 'r option \<times> ('v, 'a) World" where
  "addRegion ext guid highlightData w =
    (case getAvailableStates ext (annotation w) of
       [] \<Rightarrow> (None, w)
     | control # _ \<Rightarrow>
         (let vals = selectedValues control;
              labels = (valueType control, vals);
              self = name (item w)
          in case createResult ext (areaValue guid self highlightData) labels control self
                    (annotation w) of
               (None, ann) \<Rightarrow> (None, w\<lparr>annotation := ann\<rparr>)
             | (Some result, ann) \<Rightarrow>
                 (let newRegion = \<lparr>u_id = Some guid, rtype = ''pdfregion'', object = self,
                                   position = hposition highlightData,
                                   rtext = content_text (hcontent highlightData),
                                   label = first vals,
                                   content = hcontent highlightData\<rparr>;
                      pushed = (item w)\<lparr>regions := regions (item w) @ [PDFRegion.truncate newRegion]\<rparr>;
                      ann1 = annotation_addRegion ext newRegion ann;
                      ann2 = set_area ext result newRegion ann1
                  in (Some result, w\<lparr>item := pushed, annotation := ann2\<rparr>))))"

text \<open>
  The callback \<^verbatim>\<open>onSelectionFinished\<close> (lines 366--381) with the view
  \<^verbatim>\<open>hasStates\<close> (lines 141--144); the Boolean says whether the selection was cleared.
\<close>

definition hasStates :: "('v, 'a, 'r) Externals \<Rightarrow> ('v, 'a) World \<Rightarrow> bool" where
  "hasStates ext w =
    (case states ext (annotation w) of None \<Rightarrow> False | Some ss \<Rightarrow> length ss > 0)"

definition onSelectionFinished ::
  "('v, 'a, 'r) Externals \<Rightarrow> string \<Rightarrow> 'v Position \<Rightarrow> Content \<Rightarrow> ('v, 'a) World
    \<Rightarrow> bool \<times> ('v, 'a) World" where
  "onSelectionFinished ext guid pos cont w =
    (if \<not> hasStates ext w
     then (False, w\<lparr>console := console w @ [ConsoleWarn ''No labels selected'']\<rparr>)
     else (case addRegion ext guid \<lparr>hposition = pos, hcontent = cont\<rparr> w of
             (result, w') \<Rightarrow> (result \<noteq> None, w')))"

subsection \<open>Concrete inputs\<close>

text \<open>
  The inputs at which the theorems below are evaluated: a position with one property, two
  regions, and a \<^verbatim>\<open>PDFModel\<close> as the labeling configuration of the template creates
  it. The tag declares no \<^verbatim>\<open>savetextresult\<close>, so the attribute is undefined.
\<close>

definition page_one :: "nat Position" where
  "page_one = [''pageNumber'' \<mapsto> 1]"

definition alice :: "nat PDFRegion" where
  "alice = \<lparr>u_id = Some ''r1'', rtype = ''pdfregion'', object = ''pdf'', position = page_one,
            rtext = Some ''Alice'', label = Some ''Person''\<rparr>"

definition bob :: "nat PDFRegion" where
  "bob = \<lparr>u_id = Some ''r2'', rtype = ''pdfregion'', object = ''pdf'', position = page_one,
          rtext = Some ''Bob'', label = Some ''Person''\<rparr>"

definition pdf_plain :: "nat PDFModel" where
  "pdf_plain = \<lparr>name = ''pdf'', val = Some ''$url'', selectionenabled = True,
                highlightcolor = None, showlabels = None, savetextresult = None,
                u_value = ''doc.pdf'', regions = []\<rparr>"

text \<open>Two stores: one with two regions of distinct ids, one where an id occurs twice.\<close>

definition pdf_two :: "nat PDFModel" where
  "pdf_two = pdf_plain\<lparr>regions := [alice, bob]\<rparr>"

definition pdf_duplicate :: "nat PDFModel" where
  "pdf_duplicate = pdf_plain\<lparr>regions := [alice, bob, alice\<lparr>rtext := Some ''Alicia''\<rparr>]\<rparr>"

text \<open>
  Regions of the annotation store: one with its text and a red label, one without text
  and with a backing result, one without text and without any result.
\<close>

definition area_person :: "nat PDFRegionModel" where
  "area_person =
    \<lparr>u_id = None, rtype = ''pdfregion'', object = ''pdf'', position = page_one,
     rtext = Some ''Alice'', label = None,
     area_id = ''r1'', labels = [''Person''],
     results = [\<lparr>result_text = Some ''Alice'', selectedLabels = [\<lparr>background = ''#FF0000''\<rparr>]\<rparr>],
     selected = True, hidden = False\<rparr>"

definition area_untexted :: "nat PDFRegionModel" where
  "area_untexted =
    \<lparr>u_id = None, rtype = ''pdfregion'', object = ''pdf'', position = page_one,
     rtext = None, label = None,
     area_id = ''r2'', labels = [''Person''],
     results = [\<lparr>result_text = Some ''Bob'', selectedLabels = [\<lparr>background = ''#FF0000''\<rparr>]\<rparr>],
     selected = False, hidden = False\<rparr>"

definition area_broken :: "nat PDFRegionModel" where
  "area_broken =
    \<lparr>u_id = None, rtype = ''pdfregion'', object = ''pdf'', position = page_one,
     rtext = None, label = None,
     area_id = ''r3'', labels = [], results = [],
     selected = False, hidden = False\<rparr>"

definition dom_one :: DOM where
  "dom_one = [''r1'' \<mapsto> [\<lparr>style_background = ''#000000'', style_display = ''unset''\<rparr>]]"

text \<open>
  Worlds: an empty one, one whose tag has \<^verbatim>\<open>selectionenabled="false"\<close>, one whose
  region list is stale with respect to three regions of the store, and one whose region
  list holds \<open>alice\<close> as \<^verbatim>\<open>addRegion\<close> built it while the store holds the region
  with the same id, position, label and text. The rest of the store counts the results
  created.
\<close>

definition world_empty :: "(nat, nat) World" where
  "world_empty = \<lparr>item = pdf_plain, annotation = \<lparr>regs = [], store = 0\<rparr>, console = []\<rparr>"

definition world_disabled :: "(nat, nat) World" where
  "world_disabled = world_empty\<lparr>item := pdf_plain\<lparr>selectionenabled := False\<rparr>\<rparr>"

definition world_stale :: "(nat, nat) World" where
  "world_stale =
    \<lparr>item = pdf_plain\<lparr>regions := [bob]\<rparr>,
     annotation = \<lparr>regs = [area_untexted, area_broken, area_person], store = 0\<rparr>,
     console = []\<rparr>"


definition selection_alice :: "nat HighlightData" where
  "selection_alice =
    \<lparr>hposition = page_one, hcontent = \<lparr>content_text = Some ''Alice'', content_image = None\<rparr>\<rparr>"

text \<open>
  Annotation stores: one with a selected label control that creates every result asked
  for, the same refusing every result, and one without any selected label control.
\<close>

definition labels_person :: Control where
  "labels_person = \<lparr>valueType = ''labels'', selectedValues = [''Person'']\<rparr>"

definition store_accepting :: "(nat, nat, nat) Externals" where
  "store_accepting =
    \<lparr>getAvailableStates = (\<lambda>ann. [labels_person]),
     states = (\<lambda>ann. Some [labels_person]),
     createResult = (\<lambda>area labels control self ann. (Some (store ann), ann\<lparr>store := Suc (store ann)\<rparr>)),
     annotation_addRegion = (\<lambda>region ann. ann),
     set_area = (\<lambda>result region ann. ann)\<rparr>"

definition store_refusing :: "(nat, nat, nat) Externals" where
  "store_refusing = store_accepting\<lparr>createResult := (\<lambda>area labels control self ann. (None, ann))\<rparr>"

definition store_unlabelled :: "(nat, nat, nat) Externals" where
  "store_unlabelled = store_accepting\<lparr>getAvailableStates := (\<lambda>ann. [])\<rparr>"

section \<open>Properties\<close>

subsection \<open>Serialisation\<close>

lemma serialize_raises:
  assumes "savetextresult obj = Some ''yes''"
  shows "serialize obj self = Inl (ReferenceError ''isDefined is not defined'')"
  using assms by (simp add: serialize_def)

lemma serialize_returns:
  assumes "savetextresult obj \<noteq> Some ''yes''"
  shows "\<exists>v. serialize obj self = Inr v \<and>
           sval v ''position'' = Some (JPos (position self)) \<and>
           sval v ''text'' = Some (of_maybeNull (rtext self)) \<and>
           sval v ''label'' = (if truthy (label self) then Some (of_maybeNull (label self)) else None) \<and>
           sval v ''id'' = (if truthy (u_id self) then Some (of_maybeNull (u_id self)) else None) \<and>
           dom (sval v) =
             {''position'', ''text''} \<union> (if truthy (label self) then {''label''} else {})
               \<union> (if truthy (u_id self) then {''id''} else {})"
  using assms by (auto simp add: serialize_def Let_def)

text \<open>
  C1. The claim: the serialised value always has \<^verbatim>\<open>position\<close>, has \<^verbatim>\<open>text\<close> only
  if \<^verbatim>\<open>savetextresult\<close> of the owning object is \<^verbatim>\<open>"yes"\<close> and the text is defined,
  has \<^verbatim>\<open>label\<close> and \<^verbatim>\<open>id\<close> only if they are present, and has nothing else. The
  object literal of \<^verbatim>\<open>serialize\<close> already holds \<^verbatim>\<open>text: self.text\<close>, so the guarded
  assignment under the comment "Include text if it exists and if the parent object is
  configured to save text" adds nothing: for a region with the text Alice whose owning
  object has no \<^verbatim>\<open>savetextresult\<close>, \<^verbatim>\<open>serialize\<close> returns a value that carries the
  text Alice.
\<close>

theorem serialize_text_without_savetextresult:
  "savetextresult pdf_plain = None \<and>
   (\<exists>v. serialize pdf_plain alice = Inr v \<and> sval v ''text'' = Some (JStr ''Alice''))"
  by (simp add: serialize_def Let_def pdf_plain_def alice_def of_maybeNull_def)

subsection \<open>Rebuild\<close>

lemma derive_cases:
  "derive self e =
    (if truthy (rtext e) then
       Inr (\<lparr>u_id = Some (area_id e), rtype = ''pdfregion'', object = self,
             position = position e, rtext = None, label = first (labels e)\<rparr>, e)
     else (case results e of
             [] \<Rightarrow> Inl (TypeError ''results[0] is undefined'')
           | r # _ \<Rightarrow>
               Inr (\<lparr>u_id = Some (area_id e), rtype = ''pdfregion'', object = self,
                     position = position e, rtext = None, label = first (labels e)\<rparr>,
                    e\<lparr>rtext := result_text r\<rparr>)))"
  by (simp add: derive_def first_def updateText_def split: list.splits)

lemma forEach_regs_eq:
  "forEach_regs self es (rs, con) =
    (map (\<lambda>e. case derive self e of Inl _ \<Rightarrow> e | Inr (_, e') \<Rightarrow> e') es,
     rs @ List.map_filter (\<lambda>e. case derive self e of Inl _ \<Rightarrow> None | Inr (n, _) \<Rightarrow> Some n) es,
     con @ List.map_filter
             (\<lambda>e. case derive self e of Inl err \<Rightarrow> Some (ConsoleError err) | Inr _ \<Rightarrow> None) es)"
proof (induction es arbitrary: rs con)
  case Nil
  show ?case by (simp add: List.map_filter_simps)
next
  case (Cons e es)
  show ?case
  proof (cases "derive self e")
    case (Inl err)
    then show ?thesis using Cons.IH [of rs "con @ [ConsoleError err]"]
      by (simp add: List.map_filter_simps)
  next
    case (Inr p)
    obtain n e' where p: "p = (n, e')" by (cases p)
    show ?thesis using Inr p Cons.IH [of "rs @ [n]" con]
      by (simp add: List.map_filter_simps)
  qed
qed

lemma needsUpdate_eq:
  "needsUpdate w =
    w\<lparr>item := (item w)\<lparr>regions :=
         List.map_filter (\<lambda>e. case derive (name (item w)) e of Inl _ \<Rightarrow> None | Inr (n, _) \<Rightarrow> Some n)
           (regs (annotation w))\<rparr>,
      annotation := (annotation w)\<lparr>regs :=
         map (\<lambda>e. case derive (name (item w)) e of Inl _ \<Rightarrow> e | Inr (_, e') \<Rightarrow> e')
           (regs (annotation w))\<rparr>,
      console := console w @ List.map_filter
         (\<lambda>e. case derive (name (item w)) e of Inl err \<Rightarrow> Some (ConsoleError err) | Inr _ \<Rightarrow> None)
           (regs (annotation w))\<rparr>"
  by (simp add: needsUpdate_def updateRegions_def forEach_regs_eq)

text \<open>
  Deriving an entry a second time, after the first derivation has written its text,
  gives the same new region and leaves the entry as it is.
\<close>

lemma derive_again_new:
  "(case derive self (case derive self e of Inl _ \<Rightarrow> e | Inr (_, e') \<Rightarrow> e') of
      Inl _ \<Rightarrow> None | Inr (n, _) \<Rightarrow> Some n) =
   (case derive self e of Inl _ \<Rightarrow> None | Inr (n, _) \<Rightarrow> Some n)"
  by (simp add: derive_cases split: list.splits)

lemma derive_again_entry:
  "(case derive self (case derive self e of Inl _ \<Rightarrow> e | Inr (_, e') \<Rightarrow> e') of
      Inl _ \<Rightarrow> (case derive self e of Inl _ \<Rightarrow> e | Inr (_, e') \<Rightarrow> e') | Inr (_, e'') \<Rightarrow> e'') =
   (case derive self e of Inl _ \<Rightarrow> e | Inr (_, e') \<Rightarrow> e')"
  by (simp add: derive_cases split: list.splits)

lemma map_filter_map: "List.map_filter f (map g xs) = List.map_filter (f \<circ> g) xs"
  by (induction xs) (simp_all add: List.map_filter_simps comp_def split: option.splits)

text \<open>
  C5. Calling \<^verbatim>\<open>needsUpdate\<close> twice in succession, with nothing changing the
  annotation store in between, leaves the model after the second call as after the first:
  the same regions with the same ids, in the same order, with the same field values. The
  regions of the store are left by the second call as by the first, too.
\<close>

theorem needsUpdate_idempotent:
  fixes w :: "('v, 'a) World"
  shows "item (needsUpdate (needsUpdate w)) = item (needsUpdate w) \<and>
         annotation (needsUpdate (needsUpdate w)) = annotation (needsUpdate w)"
proof -
  let ?self = "name (item w)"
  let ?new = "\<lambda>e. case derive ?self e of Inl _ \<Rightarrow> None | Inr (n, _) \<Rightarrow> Some n"
  let ?upd = "\<lambda>e. case derive ?self e of Inl _ \<Rightarrow> e | Inr (_, e') \<Rightarrow> e'"
  let ?w1 = "needsUpdate w"
  have n: "name (item ?w1) = ?self"
    by (simp add: needsUpdate_eq)
  have r1: "regions (item ?w1) = List.map_filter ?new (regs (annotation w))"
    by (simp add: needsUpdate_eq)
  have a1: "regs (annotation ?w1) = map ?upd (regs (annotation w))"
    by (simp add: needsUpdate_eq)
  have new: "List.map_filter ?new (map ?upd es) = List.map_filter ?new es"
    for es :: "'v PDFRegionModel list"
    by (simp add: map_filter_map comp_def derive_again_new)
  have upd: "map ?upd (map ?upd es) = map ?upd es"
    for es :: "'v PDFRegionModel list"
    by (simp add: comp_def derive_again_entry)
  have "item (needsUpdate ?w1) =
        (item ?w1)\<lparr>regions := List.map_filter ?new (regs (annotation ?w1))\<rparr>"
    by (subst needsUpdate_eq [of ?w1]) (simp add: n)
  also have "\<dots> = (item ?w1)\<lparr>regions := regions (item ?w1)\<rparr>"
    by (simp only: a1 new r1)
  finally have i: "item (needsUpdate ?w1) = item ?w1"
    by simp
  have "annotation (needsUpdate ?w1) =
        (annotation ?w1)\<lparr>regs := map ?upd (regs (annotation ?w1))\<rparr>"
    by (subst needsUpdate_eq [of ?w1]) (simp add: n)
  also have "\<dots> = (annotation ?w1)\<lparr>regs := regs (annotation ?w1)\<rparr>"
    by (simp only: a1 upd)
  finally have a: "annotation (needsUpdate ?w1) = annotation ?w1"
    by simp
  from i a show ?thesis ..
qed

text \<open>
  C6. In the rebuild, an entry of \<^verbatim>\<open>regs\<close> whose derivation raises is written to the
  console and skipped, and the loop goes on: afterwards the region list holds exactly the
  regions of the entries that were derived, in the order of \<^verbatim>\<open>regs\<close>, every entry of
  \<^verbatim>\<open>regs\<close> has been visited, and the console has one more error for each entry that
  raised.
\<close>

theorem needsUpdate_skips_failures:
  "regions (item (needsUpdate w)) =
     List.map_filter (\<lambda>e. case derive (name (item w)) e of Inl _ \<Rightarrow> None | Inr (n, _) \<Rightarrow> Some n)
       (regs (annotation w)) \<and>
   length (regs (annotation (needsUpdate w))) = length (regs (annotation w)) \<and>
   console (needsUpdate w) = console w @ List.map_filter
     (\<lambda>e. case derive (name (item w)) e of Inl err \<Rightarrow> Some (ConsoleError err) | Inr _ \<Rightarrow> None)
       (regs (annotation w))"
  by (simp add: needsUpdate_eq)

theorem needsUpdate_skips_failures_witness:
  "regions (item (needsUpdate world_stale)) =
     [\<lparr>u_id = Some ''r2'', rtype = ''pdfregion'', object = ''pdf'', position = page_one,
       rtext = None, label = Some ''Person''\<rparr>,
      \<lparr>u_id = Some ''r1'', rtype = ''pdfregion'', object = ''pdf'', position = page_one,
       rtext = None, label = Some ''Person''\<rparr>] \<and>
   length (regs (annotation (needsUpdate world_stale))) = 3 \<and>
   console (needsUpdate world_stale) = [ConsoleError (TypeError ''results[0] is undefined'')]"
  using needsUpdate_skips_failures [of world_stale]
  by (simp add: world_stale_def pdf_plain_def area_untexted_def area_broken_def area_person_def
      derive_cases truthy_def first_def List.map_filter_simps)

text \<open>
  C9. The rebuild writes to the annotation store: an entry of \<^verbatim>\<open>regs\<close> whose text is
  falsy gets the text of the value of its first result (when it has a first result;
  without one the derivation raises before anything is written), and an entry whose text
  is set is left as it is.
\<close>

theorem needsUpdate_backfills_text:
  "regs (annotation (needsUpdate w)) =
     map (\<lambda>e. if truthy (rtext e) then e
               else (case results e of [] \<Rightarrow> e | r # _ \<Rightarrow> e\<lparr>rtext := result_text r\<rparr>))
       (regs (annotation w))"
  by (simp add: needsUpdate_eq derive_cases split: list.splits cong: map_cong)

theorem needsUpdate_backfills_text_witness:
  "regs (annotation (needsUpdate world_stale)) =
     [area_untexted\<lparr>rtext := Some ''Bob''\<rparr>, area_broken, area_person] \<and>
   regs (annotation (needsUpdate world_stale)) \<noteq> regs (annotation world_stale)"
  using needsUpdate_backfills_text [of world_stale]
  by (simp add: world_stale_def area_untexted_def area_broken_def area_person_def truthy_def)

subsection \<open>Serialise and rebuild\<close>

text \<open>No region of a rebuilt list has a text, whatever the entries of \<^verbatim>\<open>regs\<close> are.\<close>

lemma needsUpdate_regions_text:
  "map rtext (regions (item (needsUpdate w))) =
     replicate (length (regions (item (needsUpdate w)))) None"
proof -
  have "map rtext (List.map_filter
          (\<lambda>e. case derive self e of Inl _ \<Rightarrow> None | Inr (n, _) \<Rightarrow> Some n) es) =
        replicate (length (List.map_filter
          (\<lambda>e. case derive self e of Inl _ \<Rightarrow> None | Inr (n, _) \<Rightarrow> Some n) es)) None"
    for self and es :: "'a PDFRegionModel list"
    by (induction es) (simp_all add: List.map_filter_simps derive_cases split: list.splits)
  then show ?thesis
    by (simp add: needsUpdate_eq)
qed

text \<open>
  What the derivation takes from an entry of \<^verbatim>\<open>regs\<close> that it derives: the id, the
  position and the first label.
\<close>

lemma derive_fields:
  assumes "derive self e = Inr (n, e')"
  shows "u_id n = Some (area_id e) \<and> position n = position e \<and>
         label n = first (labels e) \<and> rtext n = None"
  using assms by (auto simp add: derive_cases split: if_splits list.splits)


subsection \<open>Creating a region\<close>

lemma addRegion_ignores_selectionenabled:
  "fst (addRegion ext guid highlightData (w\<lparr>item := (item w)\<lparr>selectionenabled := b\<rparr>\<rparr>)) =
   fst (addRegion ext guid highlightData w)"
  by (simp add: addRegion_def Let_def split: list.splits prod.splits option.splits)

lemma onSelectionFinished_no_states:
  assumes "\<not> hasStates ext w"
  shows "onSelectionFinished ext guid pos cont w =
           (False, w\<lparr>console := console w @ [ConsoleWarn ''No labels selected'']\<rparr>)"
  using assms by (simp add: onSelectionFinished_def)

lemma onSelectionFinished_addRegion:
  assumes "hasStates ext w"
  shows "onSelectionFinished ext guid pos cont w =
           (fst (addRegion ext guid \<lparr>hposition = pos, hcontent = cont\<rparr> w) \<noteq> None,
            snd (addRegion ext guid \<lparr>hposition = pos, hcontent = cont\<rparr> w))"
  using assms by (simp add: onSelectionFinished_def split: prod.splits)

text \<open>
  The claim C3 as it is written fails: with \<^verbatim>\<open>selectionenabled\<close> false, a selected
  label control and a store that creates the result, \<^verbatim>\<open>addRegion\<close> returns the result,
  a result has been created and the region list has a new region.
\<close>

theorem addRegion_selection_disabled_counterexample:
  "selectionenabled (item world_disabled) = False \<and>
   regions (item world_disabled) = [] \<and>
   fst (addRegion store_accepting ''g1'' selection_alice world_disabled) = Some 0 \<and>
   store (annotation (snd (addRegion store_accepting ''g1'' selection_alice world_disabled))) = 1 \<and>
   regions (item (snd (addRegion store_accepting ''g1'' selection_alice world_disabled))) =
     [\<lparr>u_id = Some ''g1'', rtype = ''pdfregion'', object = ''pdf'', position = page_one,
       rtext = Some ''Alice'', label = Some ''Person''\<rparr>]"
  by (simp add: addRegion_def Let_def store_accepting_def world_disabled_def world_empty_def
      pdf_plain_def selection_alice_def labels_person_def first_def PDFRegion.truncate_def)

text \<open>
  C3, amended. For every selection, when \<^verbatim>\<open>getAvailableStates()\<close> returns no label
  control, \<^verbatim>\<open>addRegion\<close> returns nothing and changes nothing: no result is created, and
  the region list, the annotation store and the console are as before. The attribute
  \<^verbatim>\<open>selectionenabled\<close> is not read by \<^verbatim>\<open>addRegion\<close>: its result is the same for
  both values of the attribute.
\<close>

theorem addRegion_no_states:
  assumes "getAvailableStates ext (annotation w) = []"
  shows "addRegion ext guid highlightData w = (None, w)"
  using assms by (simp add: addRegion_def)

theorem addRegion_no_states_witness:
  "getAvailableStates store_unlabelled (annotation world_empty) = [] \<and>
   addRegion store_unlabelled ''g1'' selection_alice world_empty = (None, world_empty)"
  using addRegion_no_states [of store_unlabelled world_empty "''g1''" selection_alice]
  by (simp add: store_unlabelled_def store_accepting_def)

text \<open>
  C4. With a label control available, \<^verbatim>\<open>addRegion\<close> returns what \<^verbatim>\<open>createResult\<close>
  returns. When that is no result, no region is appended: the model and the console are
  unchanged, and the annotation store is as \<^verbatim>\<open>createResult\<close> left it. When it is a
  result, exactly one region, built from the selection, is appended to the region list.
  So a result and a region are created together or not at all.
\<close>

theorem addRegion_atomic:
  assumes "getAvailableStates ext (annotation w) = control # others"
    and "createResult ext (areaValue guid (name (item w)) highlightData)
           (valueType control, selectedValues control) control (name (item w)) (annotation w)
         = (res, ann)"
  shows "fst (addRegion ext guid highlightData w) = res \<and>
         (case res of
            None \<Rightarrow> snd (addRegion ext guid highlightData w) = w\<lparr>annotation := ann\<rparr>
          | Some result \<Rightarrow>
              regions (item (snd (addRegion ext guid highlightData w))) =
                regions (item w) @
                  [\<lparr>u_id = Some guid, rtype = ''pdfregion'', object = name (item w),
                    position = hposition highlightData,
                    rtext = content_text (hcontent highlightData),
                    label = first (selectedValues control)\<rparr>])"
  using assms by (simp add: addRegion_def Let_def PDFRegion.truncate_def split: option.splits)

theorem addRegion_atomic_witness:
  "getAvailableStates store_refusing (annotation world_empty) = [labels_person] \<and>
   addRegion store_refusing ''g1'' selection_alice world_empty = (None, world_empty) \<and>
   getAvailableStates store_accepting (annotation world_empty) = [labels_person] \<and>
   fst (addRegion store_accepting ''g1'' selection_alice world_empty) = Some 0 \<and>
   regions (item (snd (addRegion store_accepting ''g1'' selection_alice world_empty))) =
     [\<lparr>u_id = Some ''g1'', rtype = ''pdfregion'', object = ''pdf'', position = page_one,
       rtext = Some ''Alice'', label = Some ''Person''\<rparr>]"
proof -
  have refusing:
    "createResult store_refusing (areaValue ''g1'' (name (item world_empty)) selection_alice)
       (valueType labels_person, selectedValues labels_person) labels_person
       (name (item world_empty)) (annotation world_empty) = (None, annotation world_empty)"
    by (simp add: store_refusing_def store_accepting_def)
  have accepting:
    "createResult store_accepting (areaValue ''g1'' (name (item world_empty)) selection_alice)
       (valueType labels_person, selectedValues labels_person) labels_person
       (name (item world_empty)) (annotation world_empty) =
     (Some 0, (annotation world_empty)\<lparr>store := 1\<rparr>)"
    by (simp add: store_accepting_def world_empty_def)
  have s1: "getAvailableStates store_refusing (annotation world_empty) = [labels_person]"
    by (simp add: store_refusing_def store_accepting_def)
  have s2: "getAvailableStates store_accepting (annotation world_empty) = [labels_person]"
    by (simp add: store_accepting_def)
  from addRegion_atomic [OF s1 refusing] addRegion_atomic [OF s2 accepting] s1 s2
  show ?thesis
    by (simp add: prod_eq_iff world_empty_def pdf_plain_def selection_alice_def
        labels_person_def first_def)
qed

subsection \<open>Deleting a region\<close>

text \<open>
  The claim C7 as it is written fails: in a store where two of the three regions have the
  id r1, deleting r1 removes both.
\<close>

theorem deleteRegion_duplicate_counterexample:
  "length (regions pdf_duplicate) = 3 \<and>
   regions (deleteRegion (Some ''r1'') pdf_duplicate) = [bob]"
  by (simp add: deleteRegion_def pdf_duplicate_def pdf_plain_def alice_def bob_def)

text \<open>
  C7, amended. For every store and every id, \<^verbatim>\<open>deleteRegion(id)\<close> removes every region
  whose \<^verbatim>\<open>_id\<close> is the id, keeps the other regions in their order and changes nothing
  else of the model; with an id that no region has, the model is unchanged. When the ids of
  the store are pairwise distinct, that is at most one region: exactly the one with that
  id when there is one.
\<close>

theorem deleteRegion_removes_matching:
  "deleteRegion i self = self\<lparr>regions := filter (\<lambda>r. u_id r \<noteq> i) (regions self)\<rparr> \<and>
   subseq (regions (deleteRegion i self)) (regions self) \<and>
   (i \<notin> set (map u_id (regions self)) \<longrightarrow> deleteRegion i self = self) \<and>
   (distinct (map u_id (regions self)) \<longrightarrow> i \<in> set (map u_id (regions self)) \<longrightarrow>
      (\<exists>xs y ys. regions self = xs @ y # ys \<and> u_id y = i \<and>
         regions (deleteRegion i self) = xs @ ys))"
proof -
  have all: "regions (deleteRegion i self) = filter (\<lambda>r. u_id r \<noteq> i) (regions self)"
    by (simp add: deleteRegion_def)
  have sub: "subseq (regions (deleteRegion i self)) (regions self)"
    by (simp add: all)
  have absent: "deleteRegion i self = self" if "i \<notin> set (map u_id (regions self))"
  proof -
    from that have "filter (\<lambda>r. u_id r \<noteq> i) (regions self) = regions self"
      by (auto simp add: filter_id_conv)
    then show ?thesis by (simp add: deleteRegion_def)
  qed
  have present: "\<exists>xs y ys. regions self = xs @ y # ys \<and> u_id y = i \<and>
                   regions (deleteRegion i self) = xs @ ys"
    if d: "distinct (map u_id (regions self))" and "i \<in> set (map u_id (regions self))"
  proof -
    from that(2) obtain y where y: "y \<in> set (regions self)" "u_id y = i" by auto
    then obtain xs ys where split: "regions self = xs @ y # ys"
      by (auto simp add: in_set_conv_decomp)
    from d split y(2) have "i \<notin> u_id ` set xs" and "i \<notin> u_id ` set ys"
      by auto
    then have "filter (\<lambda>r. u_id r \<noteq> i) xs = xs" and "filter (\<lambda>r. u_id r \<noteq> i) ys = ys"
      by (auto simp add: filter_id_conv)
    with split y(2) have "regions (deleteRegion i self) = xs @ ys"
      by (simp add: all)
    with split y(2) show ?thesis by blast
  qed
  have whole: "deleteRegion i self = self\<lparr>regions := filter (\<lambda>r. u_id r \<noteq> i) (regions self)\<rparr>"
    by (simp add: deleteRegion_def)
  from whole sub absent present show ?thesis by blast
qed

theorem deleteRegion_removes_matching_witness:
  "regions (deleteRegion (Some ''r1'') pdf_duplicate) = [bob] \<and>
   Some ''r9'' \<notin> set (map u_id (regions pdf_duplicate)) \<and>
   deleteRegion (Some ''r9'') pdf_duplicate = pdf_duplicate \<and>
   distinct (map u_id (regions pdf_two)) \<and>
   Some ''r1'' \<in> set (map u_id (regions pdf_two)) \<and>
   (\<exists>xs y ys. regions pdf_two = xs @ y # ys \<and> u_id y = Some ''r1'' \<and>
      regions (deleteRegion (Some ''r1'') pdf_two) = xs @ ys) \<and>
   regions (deleteRegion (Some ''r1'') pdf_two) = [bob]"
proof -
  have d: "distinct (map u_id (regions pdf_two))"
    by (simp add: pdf_two_def pdf_plain_def alice_def bob_def)
  have m: "Some ''r1'' \<in> set (map u_id (regions pdf_two))"
    by (simp add: pdf_two_def pdf_plain_def alice_def)
  have a: "Some ''r9'' \<notin> set (map u_id (regions pdf_duplicate))"
    by (simp add: pdf_duplicate_def pdf_plain_def alice_def bob_def)
  note dup1 = deleteRegion_removes_matching [of "Some ''r1''" pdf_duplicate]
  note dup9 = deleteRegion_removes_matching [of "Some ''r9''" pdf_duplicate]
  note two1 = deleteRegion_removes_matching [of "Some ''r1''" pdf_two]
  from dup1 have r1: "regions (deleteRegion (Some ''r1'') pdf_duplicate) = [bob]"
    by (simp add: pdf_duplicate_def pdf_plain_def alice_def bob_def)
  from dup9 a have r9: "deleteRegion (Some ''r9'') pdf_duplicate = pdf_duplicate"
    by blast
  from two1 d m have ex: "\<exists>xs y ys. regions pdf_two = xs @ y # ys \<and> u_id y = Some ''r1'' \<and>
      regions (deleteRegion (Some ''r1'') pdf_two) = xs @ ys"
    by blast
  from two1 have r2: "regions (deleteRegion (Some ''r1'') pdf_two) = [bob]"
    by (simp add: pdf_two_def pdf_plain_def alice_def bob_def)
  from r1 a r9 d m ex r2 show ?thesis by blast
qed

text \<open>
  C10. \<^verbatim>\<open>destroyRegion(id)\<close> and \<^verbatim>\<open>deleteRegion(id)\<close> are the same operation: on
  every model and for every id both leave the regions whose \<^verbatim>\<open>_id\<close> is not the id, and
  nothing else of the model is changed by either.
\<close>

theorem destroyRegion_eq_deleteRegion:
  "destroyRegion i self = deleteRegion i self \<and>
   regions (destroyRegion i self) = filter (\<lambda>r. u_id r \<noteq> i) (regions self) \<and>
   regions (deleteRegion i self) = filter (\<lambda>r. u_id r \<noteq> i) (regions self)"
  by (simp add: destroyRegion_def deleteRegion_def)

subsection \<open>Colours\<close>

lemma labelBackground_first:
  assumes "results self = r # rs" and "selectedLabels r = l # ls"
  shows "labelBackground self = Inr (background l)"
  using assms by (simp add: labelBackground_def first_def)

lemma changeHighlightColor_parts:
  assumes "d (area_id self) = Some parts"
  shows "changeHighlightColor c self d (area_id self) =
         Some (map (\<lambda>p. \<lparr>style_background = c,
                           style_display = (if hidden self then ''none'' else ''unset'')\<rparr>) parts)"
  using assms by (simp add: changeHighlightColor_def)

lemma changeHighlightColor_other:
  assumes "k \<noteq> area_id self"
  shows "changeHighlightColor c self d k = d k"
  using assms by (simp add: changeHighlightColor_def split: option.splits)

text \<open>
  C8. For a region whose first result has a first selected label with the background B,
  \<^verbatim>\<open>selectRegion\<close> colours the parts of its highlight with exactly B, and
  \<^verbatim>\<open>afterUnselectRegion\<close> with B followed by the two characters 26.
\<close>

theorem region_color:
  assumes "results self = r # rs" and "selectedLabels r = l # ls" and "background l = B"
  shows "selectRegion self d = Inr (changeHighlightColor B self d) \<and>
         afterUnselectRegion self d = Inr (changeHighlightColor (B @ ''26'') self d)"
  using assms labelBackground_first [of self r rs l ls]
  by (simp add: selectRegion_def afterUnselectRegion_def)

theorem region_color_witness:
  "selectRegion area_person dom_one =
     Inr [''r1'' \<mapsto> [\<lparr>style_background = ''#FF0000'', style_display = ''unset''\<rparr>]] \<and>
   afterUnselectRegion area_person dom_one =
     Inr [''r1'' \<mapsto> [\<lparr>style_background = ''#FF000026'', style_display = ''unset''\<rparr>]]"
proof -
  have r: "results area_person =
      \<lparr>result_text = Some ''Alice'', selectedLabels = [\<lparr>background = ''#FF0000''\<rparr>]\<rparr> # []"
    by (simp add: area_person_def)
  have l: "selectedLabels \<lparr>result_text = Some ''Alice'', selectedLabels = [\<lparr>background = ''#FF0000''\<rparr>]\<rparr>
      = \<lparr>background = ''#FF0000''\<rparr> # []"
    by simp
  have b: "background \<lparr>background = ''#FF0000''\<rparr> = ''#FF0000''"
    by simp
  from region_color [OF r l b, of dom_one] show ?thesis
    by (simp add: changeHighlightColor_def area_person_def dom_one_def)
qed

end
